theory Spec2Isabelle
  imports Main
begin

section \<open>The random source\<close>

text \<open>
  The program draws from Python's global \<^verbatim>\<open>random\<close> module. The generator state is made
  explicit: a draw takes the state and returns the drawn integer with the next state.
  The library's drawing function is a parameter \<open>gen\<close> of every definition below, so that
  every theorem holds for every generator and every seed.

  \<^verbatim>\<open>random.randint(a, b)\<close> raises \<^verbatim>\<open>ValueError\<close> on an empty range (\<open>b < a\<close>) and
  otherwise returns some integer of \<open>[a, b]\<close>.
\<close>

datatype error = ValueError

type_synonym 'g randint = "int \<Rightarrow> int \<Rightarrow> 'g \<Rightarrow> int \<times> 'g"

definition random_randint :: "'g randint \<Rightarrow> int \<Rightarrow> int \<Rightarrow> 'g \<Rightarrow> error + (int \<times> 'g)" where
  "random_randint gen a b g = (if b < a then Inl ValueError else Inr (gen a b g))"

text \<open>The library's contract: a draw from a non-empty range lies in the range.\<close>

definition randint_in_range :: "'g randint \<Rightarrow> bool" where
  "randint_in_range gen = (\<forall>a b g. a \<le> b \<longrightarrow> a \<le> fst (gen a b g) \<and> fst (gen a b g) \<le> b)"

text \<open>
  Two concrete generators, used to run the program on explicit draws: one that always
  draws the lowest value of the range, one that always draws the highest. Their state is
  the number of draws made so far.
\<close>

definition lowest_randint :: "nat randint" where
  "lowest_randint a b g = (a, Suc g)"

definition highest_randint :: "nat randint" where
  "highest_randint a b g = (b, Suc g)"

section \<open>QuizSimulator\<close>

record QuizSimulator =
  num_questions :: int
  num_options :: int
  knowledge_shift :: int

text \<open>
  \<^verbatim>\<open>def __init__(self, num_questions=20, num_options=4, knowledge_shift=0)\<close>: the three
  parameters are stored as given.
\<close>

definition QuizSimulator_init :: "int \<Rightarrow> int \<Rightarrow> int \<Rightarrow> QuizSimulator" where
  "QuizSimulator_init nq no ks =
     \<lparr>num_questions = nq, num_options = no, knowledge_shift = ks\<rparr>"

definition default_num_questions :: int where
  "default_num_questions = 20"

definition default_num_options :: int where
  "default_num_options = 4"

text \<open>
  \<^verbatim>\<open>sum(random.randint(1, self.num_options) == 4 for _ in range(self.num_questions))\<close>:
  the loop over \<open>range\<close>, with the running sum \<open>acc\<close>. Each round draws once and adds 1 when
  the draw equals the literal 4. An exception of the draw ends the loop.
\<close>

fun count_correct :: "'g randint \<Rightarrow> int \<Rightarrow> nat \<Rightarrow> int \<Rightarrow> 'g \<Rightarrow> error + (int \<times> 'g)" where
  "count_correct gen opts 0 acc g = Inr (acc, g)"
| "count_correct gen opts (Suc n) acc g =
     (case random_randint gen 1 opts g of
        Inl e \<Rightarrow> Inl e
      | Inr (d, g') \<Rightarrow> count_correct gen opts n (acc + (if d = 4 then 1 else 0)) g')"

text \<open>\<^verbatim>\<open>range(k)\<close> runs \<open>k\<close> times, and not at all when \<open>k \<le> 0\<close>.\<close>

definition correct_answers :: "'g randint \<Rightarrow> QuizSimulator \<Rightarrow> 'g \<Rightarrow> error + (int \<times> 'g)" where
  "correct_answers gen qs g =
     count_correct gen (num_options qs) (nat (num_questions qs)) 0 g"

definition simulate_participant_score ::
  "'g randint \<Rightarrow> QuizSimulator \<Rightarrow> 'g \<Rightarrow> error + (int \<times> 'g)" where
  "simulate_participant_score gen qs g =
     (case correct_answers gen qs g of
        Inl e \<Rightarrow> Inl e
      | Inr (c, g') \<Rightarrow> Inr (min (num_questions qs) (c + knowledge_shift qs), g'))"

section \<open>GradeDistribution\<close>

record GradeDistribution =
  scores :: "int list"

definition GradeDistribution_init :: GradeDistribution where
  "GradeDistribution_init = \<lparr>scores = []\<rparr>"

definition add_score :: "GradeDistribution \<Rightarrow> int \<Rightarrow> GradeDistribution" where
  "add_score gd score = gd\<lparr>scores := scores gd @ [score]\<rparr>"

text \<open>
  \<^verbatim>\<open>dict(Counter(self.scores))\<close>: a dictionary from score to count, as an association list
  in insertion order (the order of first occurrence). \<open>Counter\<close> goes through the list
  and adds 1 to the element's count, inserting the element with count 1 when it is new.
\<close>

fun counter_incr :: "int \<Rightarrow> (int \<times> int) list \<Rightarrow> (int \<times> int) list" where
  "counter_incr x [] = [(x, 1)]"
| "counter_incr x ((k, c) # d) =
     (if k = x then (k, c + 1) # d else (k, c) # counter_incr x d)"

definition Counter :: "int list \<Rightarrow> (int \<times> int) list" where
  "Counter xs = foldl (\<lambda>d x. counter_incr x d) [] xs"

definition calculate_distribution :: "GradeDistribution \<Rightarrow> (int \<times> int) list" where
  "calculate_distribution gd = Counter (scores gd)"

text \<open>The sum of the counts of a distribution: \<^verbatim>\<open>sum(d.values())\<close>.\<close>

definition total_count :: "(int \<times> int) list \<Rightarrow> int" where
  "total_count d = sum_list (map snd d)"

section \<open>QuizAnalyzer\<close>

record QuizAnalyzer =
  num_participants :: int
  qa_knowledge_shift :: int
  quiz_simulator :: QuizSimulator
  grade_distribution :: GradeDistribution

text \<open>
  \<^verbatim>\<open>self.quiz_simulator = QuizSimulator(knowledge_shift=knowledge_shift)\<close>: the simulator
  gets the default number of questions and of options.
\<close>

definition QuizAnalyzer_init :: "int \<Rightarrow> int \<Rightarrow> QuizAnalyzer" where
  "QuizAnalyzer_init np ks =
     \<lparr>num_participants = np,
      qa_knowledge_shift = ks,
      quiz_simulator = QuizSimulator_init default_num_questions default_num_options ks,
      grade_distribution = GradeDistribution_init\<rparr>"

text \<open>
  The loop of \<^verbatim>\<open>run_simulation\<close>: each round simulates one participant and appends the
  score. An exception of the simulator ends the loop.
\<close>

fun run_loop ::
  "'g randint \<Rightarrow> QuizSimulator \<Rightarrow> nat \<Rightarrow> GradeDistribution \<Rightarrow> 'g \<Rightarrow> error + (GradeDistribution \<times> 'g)"
where
  "run_loop gen qs 0 gd g = Inr (gd, g)"
| "run_loop gen qs (Suc n) gd g =
     (case simulate_participant_score gen qs g of
        Inl e \<Rightarrow> Inl e
      | Inr (score, g') \<Rightarrow> run_loop gen qs n (add_score gd score) g')"

definition run_simulation ::
  "'g randint \<Rightarrow> QuizAnalyzer \<Rightarrow> 'g \<Rightarrow> error + (QuizAnalyzer \<times> 'g)" where
  "run_simulation gen a g =
     (case run_loop gen (quiz_simulator a) (nat (num_participants a)) (grade_distribution a) g of
        Inl e \<Rightarrow> Inl e
      | Inr (gd, g') \<Rightarrow> Inr (a\<lparr>grade_distribution := gd\<rparr>, g'))"

text \<open>\<open>n\<close> calls of \<^verbatim>\<open>run_simulation\<close> in a row on the same analyzer.\<close>

fun run_simulation_times ::
  "'g randint \<Rightarrow> nat \<Rightarrow> QuizAnalyzer \<Rightarrow> 'g \<Rightarrow> error + (QuizAnalyzer \<times> 'g)" where
  "run_simulation_times gen 0 a g = Inr (a, g)"
| "run_simulation_times gen (Suc n) a g =
     (case run_simulation gen a g of
        Inl e \<Rightarrow> Inl e
      | Inr (a', g') \<Rightarrow> run_simulation_times gen n a' g')"

text \<open>
  A single run followed by \<^verbatim>\<open>calculate_distribution\<close>: the distribution that
  \<^verbatim>\<open>plot_distribution\<close> reads after \<^verbatim>\<open>run_simulation\<close>.
\<close>

definition run_distribution ::
  "'g randint \<Rightarrow> QuizAnalyzer \<Rightarrow> 'g \<Rightarrow> error + (int \<times> int) list" where
  "run_distribution gen a g =
     (case run_simulation gen a g of
        Inl e \<Rightarrow> Inl e
      | Inr (a', g') \<Rightarrow> Inr (calculate_distribution (grade_distribution a')))"

text \<open>The configurations the specification calls valid.\<close>

definition valid_config :: "QuizSimulator \<Rightarrow> bool" where
  "valid_config qs = (0 < num_questions qs \<and> 2 \<le> num_options qs \<and> 0 \<le> knowledge_shift qs)"

section \<open>Facts about the simulator and the counter\<close>

lemma count_correct_bounds:
  "count_correct gen opts n acc g = Inr (c, g') \<Longrightarrow> acc \<le> c \<and> c \<le> acc + int n"
proof (induction n arbitrary: acc g)
  case 0
  then show ?case by simp
next
  case (Suc n)
  then show ?case
    by (fastforce split: sum.splits prod.splits if_splits)
qed

lemma count_correct_returns:
  "1 \<le> opts \<Longrightarrow> \<exists>c g'. count_correct gen opts n acc g = Inr (c, g')"
proof (induction n arbitrary: acc g)
  case 0
  then show ?case by simp
next
  case (Suc n)
  then show ?case
    by (simp add: random_randint_def split: prod.splits)
qed

lemma count_correct_raises:
  "opts < 1 \<Longrightarrow> count_correct gen opts (Suc n) acc g = Inl ValueError"
  by (simp add: random_randint_def)

lemma count_correct_error_iff:
  "(\<exists>e. count_correct gen opts n acc g = Inl e) \<longleftrightarrow> (opts < 1 \<and> 0 < n)"
proof (cases "1 \<le> opts")
  case True
  with count_correct_returns [OF True, of gen n acc g] show ?thesis by auto
next
  case False
  then show ?thesis
    by (cases n) (simp_all add: random_randint_def)
qed

lemma count_correct_below_four:
  "randint_in_range gen \<Longrightarrow> opts < 4 \<Longrightarrow> count_correct gen opts n acc g = Inr (c, g') \<Longrightarrow> c = acc"
proof (induction n arbitrary: acc g)
  case 0
  then show ?case by simp
next
  case (Suc n)
  from Suc.prems(3) have ne: "\<not> opts < 1"
    by (auto simp: random_randint_def)
  obtain d g1 where d: "gen 1 opts g = (d, g1)" by (cases "gen 1 opts g")
  from Suc.prems(1) ne have "fst (gen 1 opts g) \<le> opts"
    unfolding randint_in_range_def by auto
  with d Suc.prems(2) have "d \<noteq> 4" by simp
  with Suc.prems(3) ne d have "count_correct gen opts n acc g1 = Inr (c, g')"
    by (simp add: random_randint_def)
  with Suc.IH Suc.prems(1,2) show ?case by blast
qed

lemma simulate_score_shape:
  "simulate_participant_score gen qs g = Inr (s, g') \<Longrightarrow>
     \<exists>c. correct_answers gen qs g = Inr (c, g') \<and> 0 \<le> c \<and> c \<le> int (nat (num_questions qs))
        \<and> s = min (num_questions qs) (c + knowledge_shift qs)"
  by (auto simp: simulate_participant_score_def correct_answers_def
      split: sum.splits dest: count_correct_bounds)

lemma simulate_error_iff:
  "(\<exists>e. simulate_participant_score gen qs g = Inl e) \<longleftrightarrow> (num_options qs < 1 \<and> 0 < num_questions qs)"
proof -
  have "(\<exists>e. simulate_participant_score gen qs g = Inl e) \<longleftrightarrow> (\<exists>e. correct_answers gen qs g = Inl e)"
    by (auto simp: simulate_participant_score_def split: sum.splits)
  also have "\<dots> \<longleftrightarrow> (num_options qs < 1 \<and> 0 < nat (num_questions qs))"
    unfolding correct_answers_def by (rule count_correct_error_iff)
  finally show ?thesis by simp
qed

lemma simulate_error_value:
  "simulate_participant_score gen qs g = Inl e \<Longrightarrow> e = ValueError"
  by (cases e) simp

lemma counter_incr_total: "total_count (counter_incr x d) = total_count d + 1"
  by (induction x d rule: counter_incr.induct) (simp_all add: total_count_def)

lemma foldl_counter_total:
  "total_count (foldl (\<lambda>d x. counter_incr x d) d xs) = total_count d + int (length xs)"
  by (induction xs arbitrary: d) (simp_all add: counter_incr_total)

lemma Counter_total: "total_count (Counter xs) = int (length xs)"
  by (simp add: Counter_def foldl_counter_total) (simp add: total_count_def)

lemma foldl_counter_same:
  "foldl (\<lambda>d x. counter_incr x d) [(x, c)] (replicate n x) = [(x, c + int n)]"
  by (induction n arbitrary: c) simp_all

lemma Counter_replicate: "Counter (replicate (Suc n) x) = [(x, 1 + int n)]"
  by (simp add: Counter_def foldl_counter_same)

lemma run_loop_scores:
  "run_loop gen qs n gd g = Inr (gd', g') \<Longrightarrow>
     \<exists>new. scores gd' = scores gd @ new \<and> length new = n \<and>
       (\<forall>s \<in> set new. \<exists>g1 g2. simulate_participant_score gen qs g1 = Inr (s, g2))"
proof (induction n arbitrary: gd g)
  case 0
  then show ?case by simp
next
  case (Suc n)
  from Suc.prems obtain s g1 where
    s: "simulate_participant_score gen qs g = Inr (s, g1)" and
    r: "run_loop gen qs n (add_score gd s) g1 = Inr (gd', g')"
    by (auto split: sum.splits)
  from Suc.IH [OF r] obtain new where
    new: "scores gd' = scores (add_score gd s) @ new" "length new = n"
      "\<forall>t \<in> set new. \<exists>g1 g2. simulate_participant_score gen qs g1 = Inr (t, g2)"
    by blast
  let ?new = "s # new"
  from new(1) have "scores gd' = scores gd @ ?new" by (simp add: add_score_def)
  moreover from new(2) have "length ?new = Suc n" by simp
  moreover from new(3) s have
    "\<forall>t \<in> set ?new. \<exists>g1 g2. simulate_participant_score gen qs g1 = Inr (t, g2)"
    by auto
  ultimately show ?case by blast
qed

lemma run_loop_returns:
  "\<not> (num_options qs < 1 \<and> 0 < num_questions qs) \<Longrightarrow> \<exists>gd' g'. run_loop gen qs n gd g = Inr (gd', g')"
proof (induction n arbitrary: gd g)
  case 0
  then show ?case by simp
next
  case (Suc n)
  from Suc.prems simulate_error_iff [of gen qs g]
  obtain s g1 where "simulate_participant_score gen qs g = Inr (s, g1)"
    by (cases "simulate_participant_score gen qs g") auto
  with Suc.IH [OF Suc.prems] show ?case by simp
qed

lemma run_loop_raises:
  "num_options qs < 1 \<Longrightarrow> 0 < num_questions qs \<Longrightarrow> run_loop gen qs (Suc n) gd g = Inl ValueError"
proof -
  assume "num_options qs < 1" "0 < num_questions qs"
  with simulate_error_iff [of gen qs g] obtain e where "simulate_participant_score gen qs g = Inl e"
    by blast
  then show ?thesis by (cases e) simp
qed

lemma run_loop_error_iff:
  "(\<exists>e. run_loop gen qs n gd g = Inl e) \<longleftrightarrow> (num_options qs < 1 \<and> 0 < num_questions qs \<and> 0 < n)"
proof (cases "num_options qs < 1 \<and> 0 < num_questions qs")
  case True
  show ?thesis
  proof (cases n)
    case 0
    then show ?thesis by simp
  next
    case (Suc m)
    with True run_loop_raises [of qs gen m gd g] show ?thesis by simp
  qed
next
  case False
  with run_loop_returns [OF False, of gen n gd g] show ?thesis by auto
qed

lemma run_simulation_error_iff:
  "(\<exists>e. run_simulation gen a g = Inl e) \<longleftrightarrow>
     (num_options (quiz_simulator a) < 1 \<and> 0 < num_questions (quiz_simulator a) \<and> 0 < num_participants a)"
proof -
  have "(\<exists>e. run_simulation gen a g = Inl e) \<longleftrightarrow>
      (\<exists>e. run_loop gen (quiz_simulator a) (nat (num_participants a)) (grade_distribution a) g = Inl e)"
    by (auto simp: run_simulation_def split: sum.splits)
  then show ?thesis by (simp add: run_loop_error_iff)
qed

lemma run_simulation_scores:
  assumes "run_simulation gen a g = Inr (a', g')"
  shows "\<exists>new. scores (grade_distribution a') = scores (grade_distribution a) @ new \<and>
           length new = nat (num_participants a) \<and>
           (\<forall>s \<in> set new. \<exists>g1 g2. simulate_participant_score gen (quiz_simulator a) g1 = Inr (s, g2))"
    and "num_participants a' = num_participants a"
    and "quiz_simulator a' = quiz_simulator a"
    and "qa_knowledge_shift a' = qa_knowledge_shift a"
proof -
  from assms obtain gd where
    r: "run_loop gen (quiz_simulator a) (nat (num_participants a)) (grade_distribution a) g = Inr (gd, g')"
    and a': "a' = a\<lparr>grade_distribution := gd\<rparr>"
    by (auto simp: run_simulation_def split: sum.splits)
  from run_loop_scores [OF r] a'
  show "\<exists>new. scores (grade_distribution a') = scores (grade_distribution a) @ new \<and>
           length new = nat (num_participants a) \<and>
           (\<forall>s \<in> set new. \<exists>g1 g2. simulate_participant_score gen (quiz_simulator a) g1 = Inr (s, g2))"
    by simp
  from a' show "num_participants a' = num_participants a" by simp
  from a' show "quiz_simulator a' = quiz_simulator a" by simp
  from a' show "qa_knowledge_shift a' = qa_knowledge_shift a" by simp
qed

lemma lowest_randint_in_range: "randint_in_range lowest_randint"
  by (simp add: randint_in_range_def lowest_randint_def)

lemma highest_randint_in_range: "randint_in_range highest_randint"
  by (simp add: randint_in_range_def highest_randint_def)

lemma run_simulation_returns:
  "\<not> (num_options (quiz_simulator a) < 1 \<and> 0 < num_questions (quiz_simulator a)) \<Longrightarrow>
     \<exists>a' g'. run_simulation gen a g = Inr (a', g')"
  using run_simulation_error_iff [of gen a g]
  by (cases "run_simulation gen a g") auto

lemma all_equal_replicate: "\<forall>s \<in> set xs. s = v \<Longrightarrow> xs = replicate (length xs) v"
  by (induction xs) simp_all

lemma simulate_returns:
  "\<not> (num_options qs < 1 \<and> 0 < num_questions qs) \<Longrightarrow>
     \<exists>s g'. simulate_participant_score gen qs g = Inr (s, g')"
  using simulate_error_iff [of gen qs g]
  by (cases "simulate_participant_score gen qs g") auto

lemma run_distribution_constant:
  assumes r: "run_simulation gen a g = Inr (a', g')"
    and fresh: "scores (grade_distribution a) = []"
    and pos: "0 < num_participants a"
    and const: "\<And>s g1 g2. simulate_participant_score gen (quiz_simulator a) g1 = Inr (s, g2) \<Longrightarrow> s = v"
  shows "run_distribution gen a g = Inr [(v, num_participants a)]"
proof -
  from run_simulation_scores(1) [OF r] fresh obtain new where
    new: "scores (grade_distribution a') = new" "length new = nat (num_participants a)"
      "\<forall>s \<in> set new. \<exists>g1 g2. simulate_participant_score gen (quiz_simulator a) g1 = Inr (s, g2)"
    by auto
  from new(3) const have "\<forall>s \<in> set new. s = v" by blast
  from all_equal_replicate [OF this] new(2)
  have rep: "new = replicate (nat (num_participants a)) v" by simp
  from pos obtain m where m: "nat (num_participants a) = Suc m"
    by (cases "nat (num_participants a)") auto
  with pos have "num_participants a = 1 + int m" by linarith
  with rep m new(1) have "calculate_distribution (grade_distribution a') = [(v, num_participants a)]"
    by (simp add: calculate_distribution_def Counter_replicate del: replicate.simps)
  with r show ?thesis by (simp add: run_distribution_def)
qed

lemma run_simulation_error_value:
  "run_simulation gen a g = Inl e \<Longrightarrow> e = ValueError"
  by (cases e) simp

lemma run_simulation_times_scores:
  assumes "1 \<le> num_options (quiz_simulator a)"
  shows "\<exists>a' g' new. run_simulation_times gen n a g = Inr (a', g') \<and>
           scores (grade_distribution a') = scores (grade_distribution a) @ new \<and>
           length new = n * nat (num_participants a) \<and>
           num_participants a' = num_participants a \<and>
           quiz_simulator a' = quiz_simulator a"
  using assms
proof (induction n arbitrary: a g)
  case 0
  then show ?case by simp
next
  case (Suc n)
  from Suc.prems have "\<not> (num_options (quiz_simulator a) < 1 \<and> 0 < num_questions (quiz_simulator a))"
    by simp
  from run_simulation_returns [OF this, of gen g] obtain a1 g1 where
    r: "run_simulation gen a g = Inr (a1, g1)" by blast
  from run_simulation_scores [OF r] obtain new1 where
    a1: "scores (grade_distribution a1) = scores (grade_distribution a) @ new1"
      "length new1 = nat (num_participants a)"
      "num_participants a1 = num_participants a"
      "quiz_simulator a1 = quiz_simulator a"
    by blast
  from Suc.prems a1(4) have "1 \<le> num_options (quiz_simulator a1)" by simp
  from Suc.IH [OF this, of g1] obtain a' g' new where
    rest: "run_simulation_times gen n a1 g1 = Inr (a', g')"
      "scores (grade_distribution a') = scores (grade_distribution a1) @ new"
      "length new = n * nat (num_participants a1)"
      "num_participants a' = num_participants a1"
      "quiz_simulator a' = quiz_simulator a1"
    by blast
  from r rest(1) have "run_simulation_times gen (Suc n) a g = Inr (a', g')" by simp
  moreover from a1(1) rest(2)
  have "scores (grade_distribution a') = scores (grade_distribution a) @ (new1 @ new)" by simp
  moreover from a1(2,3) rest(3)
  have "length (new1 @ new) = Suc n * nat (num_participants a)" by simp
  moreover from a1(3,4) rest(4,5)
  have "num_participants a' = num_participants a" "quiz_simulator a' = quiz_simulator a"
    by simp_all
  ultimately show ?case by blast
qed

lemma run_loop_frame:
  "run_loop gen qs n gd1 g = Inr (gd1', g') \<Longrightarrow>
     \<exists>new. scores gd1' = scores gd1 @ new \<and>
       (\<forall>gd2. run_loop gen qs n gd2 g = Inr (gd2\<lparr>scores := scores gd2 @ new\<rparr>, g'))"
proof (induction n arbitrary: gd1 g)
  case 0
  then show ?case by simp
next
  case (Suc n)
  from Suc.prems obtain s g1 where
    s: "simulate_participant_score gen qs g = Inr (s, g1)" and
    r: "run_loop gen qs n (add_score gd1 s) g1 = Inr (gd1', g')"
    by (auto split: sum.splits)
  from Suc.IH [OF r] obtain new where
    new: "scores gd1' = scores (add_score gd1 s) @ new"
      "\<forall>gd2. run_loop gen qs n gd2 g1 = Inr (gd2\<lparr>scores := scores gd2 @ new\<rparr>, g')"
    by blast
  from new(1) have "scores gd1' = scores gd1 @ (s # new)" by (simp add: add_score_def)
  moreover have "run_loop gen qs (Suc n) gd2 g = Inr (gd2\<lparr>scores := scores gd2 @ (s # new)\<rparr>, g')"
    for gd2
    using s new(2) by (simp add: add_score_def)
  ultimately show ?case by blast
qed

lemma run_loop_frame_error:
  assumes "run_loop gen qs n gd1 g = Inl e"
  shows "run_loop gen qs n gd2 g = Inl e"
proof (cases "run_loop gen qs n gd2 g")
  case (Inl e')
  then show ?thesis by (cases e, cases e') simp
next
  case (Inr p)
  obtain gd2' g' where "p = (gd2', g')" by (cases p)
  with Inr run_loop_frame [of gen qs n gd2 g gd2' g'] assms show ?thesis by auto
qed

section \<open>The claims\<close>

text \<open>
  C4: for a valid configuration, a non-negative number of participants and an analyzer
  with no score yet, a single run followed by \<^verbatim>\<open>calculate_distribution\<close> succeeds
  and the counts of the distribution sum to the number of participants.
\<close>

theorem C4_counts_sum_to_participants:
  assumes "valid_config (quiz_simulator a)"
    and "0 \<le> num_participants a"
    and "scores (grade_distribution a) = []"
  shows "\<exists>d. run_distribution gen a g = Inr d \<and> total_count d = num_participants a"
proof -
  from assms(1) have "\<not> (num_options (quiz_simulator a) < 1 \<and> 0 < num_questions (quiz_simulator a))"
    by (simp add: valid_config_def)
  from run_simulation_returns [OF this, of gen g] obtain a' g' where
    r: "run_simulation gen a g = Inr (a', g')" by blast
  from run_simulation_scores(1) [OF r] assms(3) obtain new where
    "scores (grade_distribution a') = new" "length new = nat (num_participants a)"
    by auto
  with assms(2) have "total_count (calculate_distribution (grade_distribution a')) = num_participants a"
    by (simp add: calculate_distribution_def Counter_total)
  with r show ?thesis by (simp add: run_distribution_def)
qed

theorem C4_counts_sum_to_participants_witness:
  "valid_config (quiz_simulator (QuizAnalyzer_init 3 0)) \<and>
   0 \<le> num_participants (QuizAnalyzer_init 3 0) \<and>
   scores (grade_distribution (QuizAnalyzer_init 3 0)) = [] \<and>
   run_distribution highest_randint (QuizAnalyzer_init 3 0) 0 = Inr [(20, 3)] \<and>
   total_count [(20, 3)] = num_participants (QuizAnalyzer_init 3 0)"
proof -
  have v: "valid_config (quiz_simulator (QuizAnalyzer_init 3 0))"
    by (simp add: valid_config_def QuizAnalyzer_init_def QuizSimulator_init_def
        default_num_questions_def default_num_options_def)
  have p: "0 \<le> num_participants (QuizAnalyzer_init 3 0)"
    by (simp add: QuizAnalyzer_init_def)
  have s: "scores (grade_distribution (QuizAnalyzer_init 3 0)) = []"
    by (simp add: QuizAnalyzer_init_def GradeDistribution_init_def)
  have e: "run_distribution highest_randint (QuizAnalyzer_init 3 0) 0 = Inr [(20, 3)]"
    by code_simp
  from C4_counts_sum_to_participants [OF v p s, of highest_randint 0] e v p s
  show ?thesis by simp
qed

text \<open>
  C7: a run with no participant succeeds, leaves the analyzer and the random source as
  they were, and the distribution read afterwards is empty (no keys). This holds for
  every configuration of the simulator, valid or not, since no draw is made.
\<close>

theorem C7_no_participants:
  assumes "num_participants a = 0" and "scores (grade_distribution a) = []"
  shows "run_simulation gen a g = Inr (a, g) \<and> run_distribution gen a g = Inr []"
  using assms
  by (simp add: run_distribution_def run_simulation_def calculate_distribution_def Counter_def)

theorem C7_no_participants_witness:
  "num_participants (QuizAnalyzer_init 0 4) = 0 \<and>
   scores (grade_distribution (QuizAnalyzer_init 0 4)) = [] \<and>
   valid_config (quiz_simulator (QuizAnalyzer_init 0 4)) \<and>
   run_simulation lowest_randint (QuizAnalyzer_init 0 4) 0 = Inr (QuizAnalyzer_init 0 4, 0) \<and>
   run_distribution lowest_randint (QuizAnalyzer_init 0 4) 0 = Inr []"
proof -
  have h: "num_participants (QuizAnalyzer_init 0 4) = 0"
    "scores (grade_distribution (QuizAnalyzer_init 0 4)) = []"
    by (simp_all add: QuizAnalyzer_init_def GradeDistribution_init_def)
  have v: "valid_config (quiz_simulator (QuizAnalyzer_init 0 4))"
    by (simp add: valid_config_def QuizAnalyzer_init_def QuizSimulator_init_def
        default_num_questions_def default_num_options_def)
  from C7_no_participants [OF h, of lowest_randint 0] h v show ?thesis by simp
qed

text \<open>
  C5, as stated, fails where the number of questions is negative: the loop does not run,
  the raw count is 0 and the upper clamp returns the number of questions itself, here
  the score -1 for a knowledge shift of 0.
\<close>

theorem C5_counterexample:
  "0 \<le> knowledge_shift (QuizSimulator_init (- 1) 4 0) \<and>
   correct_answers lowest_randint (QuizSimulator_init (- 1) 4 0) 0 = Inr (0, 0) \<and>
   simulate_participant_score lowest_randint (QuizSimulator_init (- 1) 4 0) 0 = Inr (- 1, 0)"
  by (simp add: simulate_participant_score_def correct_answers_def QuizSimulator_init_def)

text \<open>
  C5, amended: for every configuration with a non-negative knowledge shift on which the
  draw does not raise, the simulator returns the score
  \<open>min num_questions (raw + knowledge_shift)\<close> with a raw count \<open>raw \<ge> 0\<close>; the score is
  at most the number of questions, and it is non-negative when the number of questions
  is.
\<close>

theorem C5_score_is_clamped_sum:
  assumes "0 \<le> knowledge_shift qs"
    and "\<not> (num_options qs < 1 \<and> 0 < num_questions qs)"
  shows "\<exists>c s g'. correct_answers gen qs g = Inr (c, g') \<and>
           simulate_participant_score gen qs g = Inr (s, g') \<and>
           0 \<le> c \<and>
           s = min (num_questions qs) (c + knowledge_shift qs) \<and>
           s \<le> num_questions qs \<and>
           (0 \<le> num_questions qs \<longrightarrow> 0 \<le> s)"
proof -
  from simulate_returns [OF assms(2), of gen g] obtain s g' where
    r: "simulate_participant_score gen qs g = Inr (s, g')" by blast
  from simulate_score_shape [OF r] obtain c where
    c: "correct_answers gen qs g = Inr (c, g')" "0 \<le> c"
      "s = min (num_questions qs) (c + knowledge_shift qs)"
    by blast
  from c(2,3) assms(1) have "s \<le> num_questions qs" "0 \<le> num_questions qs \<longrightarrow> 0 \<le> s"
    by simp_all
  with r c show ?thesis by blast
qed

theorem C5_score_is_clamped_sum_witness:
  "0 \<le> knowledge_shift (QuizSimulator_init 3 4 1) \<and>
   \<not> (num_options (QuizSimulator_init 3 4 1) < 1 \<and> 0 < num_questions (QuizSimulator_init 3 4 1)) \<and>
   correct_answers highest_randint (QuizSimulator_init 3 4 1) 0 = Inr (3, 3) \<and>
   simulate_participant_score highest_randint (QuizSimulator_init 3 4 1) 0 = Inr (3, 3) \<and>
   (\<exists>c s g'. correct_answers highest_randint (QuizSimulator_init 3 4 1) 0 = Inr (c, g') \<and>
      simulate_participant_score highest_randint (QuizSimulator_init 3 4 1) 0 = Inr (s, g') \<and>
      0 \<le> c \<and> s = min 3 (c + 1) \<and> s \<le> 3 \<and> 0 \<le> s)"
proof -
  have h1: "0 \<le> knowledge_shift (QuizSimulator_init 3 4 1)"
    by (simp add: QuizSimulator_init_def)
  have h2: "\<not> (num_options (QuizSimulator_init 3 4 1) < 1 \<and> 0 < num_questions (QuizSimulator_init 3 4 1))"
    by (simp add: QuizSimulator_init_def)
  have e1: "correct_answers highest_randint (QuizSimulator_init 3 4 1) 0 = Inr (3, 3)"
    by code_simp
  have e2: "simulate_participant_score highest_randint (QuizSimulator_init 3 4 1) 0 = Inr (3, 3)"
    by code_simp
  have f: "num_questions (QuizSimulator_init 3 4 1) = 3" "knowledge_shift (QuizSimulator_init 3 4 1) = 1"
    by (simp_all add: QuizSimulator_init_def)
  from C5_score_is_clamped_sum [OF h1 h2, of highest_randint 0] h1 h2 e1 e2
  show ?thesis unfolding f by simp
qed

text \<open>
  C6: with a knowledge shift \<open>k > 0\<close>, every score the simulator returns is at least
  \<open>min k num_questions\<close>, and it is the number of questions whenever the raw count plus
  \<open>k\<close> reaches it. With 20 questions, 4 options, a shift of 20 and 10 participants (the
  analyzer built by its constructor from 10 and 20), the run succeeds and the
  distribution is \<open>{20: 10}\<close>, for every generator and seed.
\<close>

theorem C6_shift_is_floor:
  assumes "0 < knowledge_shift qs"
  shows "(\<forall>s g'. simulate_participant_score gen qs g = Inr (s, g') \<longrightarrow>
           (\<exists>c. correct_answers gen qs g = Inr (c, g') \<and>
              min (knowledge_shift qs) (num_questions qs) \<le> s \<and>
              (num_questions qs \<le> c + knowledge_shift qs \<longrightarrow> s = num_questions qs))) \<and>
         run_distribution gen (QuizAnalyzer_init 10 20) g = Inr [(20, 10)]"
proof -
  have first: "\<forall>s g'. simulate_participant_score gen qs g = Inr (s, g') \<longrightarrow>
           (\<exists>c. correct_answers gen qs g = Inr (c, g') \<and>
              min (knowledge_shift qs) (num_questions qs) \<le> s \<and>
              (num_questions qs \<le> c + knowledge_shift qs \<longrightarrow> s = num_questions qs))"
  proof (intro allI impI)
    fix s g'
    assume "simulate_participant_score gen qs g = Inr (s, g')"
    from simulate_score_shape [OF this] obtain c where
      c: "correct_answers gen qs g = Inr (c, g')" "0 \<le> c"
        "s = min (num_questions qs) (c + knowledge_shift qs)"
      by blast
    from c(2,3) have "min (knowledge_shift qs) (num_questions qs) \<le> s"
      "num_questions qs \<le> c + knowledge_shift qs \<longrightarrow> s = num_questions qs"
      by simp_all
    with c(1) show "\<exists>c. correct_answers gen qs g = Inr (c, g') \<and>
              min (knowledge_shift qs) (num_questions qs) \<le> s \<and>
              (num_questions qs \<le> c + knowledge_shift qs \<longrightarrow> s = num_questions qs)"
      by blast
  qed
  let ?a = "QuizAnalyzer_init 10 20"
  have qs: "quiz_simulator ?a = \<lparr>num_questions = 20, num_options = 4, knowledge_shift = 20\<rparr>"
    by (simp add: QuizAnalyzer_init_def QuizSimulator_init_def
        default_num_questions_def default_num_options_def)
  have np: "num_participants ?a = 10" by (simp add: QuizAnalyzer_init_def)
  have fresh: "scores (grade_distribution ?a) = []"
    by (simp add: QuizAnalyzer_init_def GradeDistribution_init_def)
  have "\<not> (num_options (quiz_simulator ?a) < 1 \<and> 0 < num_questions (quiz_simulator ?a))"
    by (simp add: qs)
  from run_simulation_returns [OF this, of gen g] obtain a' g' where
    r: "run_simulation gen ?a g = Inr (a', g')" by blast
  have const: "s = 20" if "simulate_participant_score gen (quiz_simulator ?a) g1 = Inr (s, g2)"
    for s g1 g2
  proof -
    from simulate_score_shape [OF that] obtain c where
      "0 \<le> c" "s = min (num_questions (quiz_simulator ?a)) (c + knowledge_shift (quiz_simulator ?a))"
      by blast
    then show ?thesis by (simp add: qs)
  qed
  from run_distribution_constant [OF r fresh _ const] np
  have "run_distribution gen ?a g = Inr [(20, 10)]" by simp
  with first show ?thesis by blast
qed

theorem C6_shift_is_floor_witness:
  "0 < knowledge_shift (QuizSimulator_init 5 4 2) \<and>
   simulate_participant_score lowest_randint (QuizSimulator_init 5 4 2) 0 = Inr (2, 5) \<and>
   correct_answers lowest_randint (QuizSimulator_init 5 4 2) 0 = Inr (0, 5) \<and>
   min (knowledge_shift (QuizSimulator_init 5 4 2)) (num_questions (QuizSimulator_init 5 4 2)) \<le> 2 \<and>
   simulate_participant_score highest_randint (QuizSimulator_init 5 4 2) 0 = Inr (5, 5) \<and>
   correct_answers highest_randint (QuizSimulator_init 5 4 2) 0 = Inr (5, 5) \<and>
   run_distribution lowest_randint (QuizAnalyzer_init 10 20) 0 = Inr [(20, 10)]"
proof -
  have h: "0 < knowledge_shift (QuizSimulator_init 5 4 2)"
    by (simp add: QuizSimulator_init_def)
  have e: "simulate_participant_score lowest_randint (QuizSimulator_init 5 4 2) 0 = Inr (2, 5)"
    "correct_answers lowest_randint (QuizSimulator_init 5 4 2) 0 = Inr (0, 5)"
    "simulate_participant_score highest_randint (QuizSimulator_init 5 4 2) 0 = Inr (5, 5)"
    "correct_answers highest_randint (QuizSimulator_init 5 4 2) 0 = Inr (5, 5)"
    by code_simp+
  have m: "min (knowledge_shift (QuizSimulator_init 5 4 2)) (num_questions (QuizSimulator_init 5 4 2)) \<le> 2"
    by (simp add: QuizSimulator_init_def)
  from C6_shift_is_floor [OF h, of lowest_randint 0] h e m show ?thesis by blast
qed

text \<open>
  C3: the code at the claim's scenario (1 question, 1 option, no shift, 5 participants).
  Every draw is 1, the only option, and is compared with the literal 4: no answer counts
  as correct, every score is 0 and the distribution is \<open>{0: 5}\<close>, where the claim
  says \<open>{1: 5}\<close>. This holds for every generator that draws inside the range.
\<close>

theorem C3_single_option_scores_zero:
  assumes "randint_in_range gen"
  shows "run_distribution gen
           \<lparr>num_participants = 5, qa_knowledge_shift = 0,
            quiz_simulator = QuizSimulator_init 1 1 0,
            grade_distribution = GradeDistribution_init\<rparr> g = Inr [(0, 5)]"
proof -
  let ?a = "\<lparr>num_participants = 5, qa_knowledge_shift = 0,
            quiz_simulator = QuizSimulator_init 1 1 0,
            grade_distribution = GradeDistribution_init\<rparr>"
  have fresh: "scores (grade_distribution ?a) = []"
    by (simp add: GradeDistribution_init_def)
  have "\<not> (num_options (quiz_simulator ?a) < 1 \<and> 0 < num_questions (quiz_simulator ?a))"
    by (simp add: QuizSimulator_init_def)
  from run_simulation_returns [OF this, of gen g] obtain a' g' where
    r: "run_simulation gen ?a g = Inr (a', g')" by blast
  have const: "s = 0" if "simulate_participant_score gen (quiz_simulator ?a) g1 = Inr (s, g2)"
    for s g1 g2
  proof -
    from simulate_score_shape [OF that] obtain c where
      c: "correct_answers gen (quiz_simulator ?a) g1 = Inr (c, g2)"
        "s = min (num_questions (quiz_simulator ?a)) (c + knowledge_shift (quiz_simulator ?a))"
      by blast
    from c(1) have "count_correct gen 1 (nat 1) 0 g1 = Inr (c, g2)"
      by (simp add: correct_answers_def QuizSimulator_init_def)
    from count_correct_below_four [OF assms _ this] have "c = 0" by simp
    with c(2) show ?thesis by (simp add: QuizSimulator_init_def)
  qed
  from run_distribution_constant [OF r fresh _ const]
  show ?thesis by simp
qed

theorem C3_single_option_scores_zero_witness:
  "randint_in_range highest_randint \<and>
   run_distribution highest_randint
           \<lparr>num_participants = 5, qa_knowledge_shift = 0,
            quiz_simulator = QuizSimulator_init 1 1 0,
            grade_distribution = GradeDistribution_init\<rparr> 0 = Inr [(0, 5)]"
  using C3_single_option_scores_zero [OF highest_randint_in_range, of 0] highest_randint_in_range
  by simp

text \<open>
  C1: the code at 1 question and 2 options, on a draw of the last option (the value 2):
  the draw is compared with the literal 4, not with the number of options, so it is not
  counted and the score is 0, where the claim counts it as correct.
\<close>

theorem C1_last_option_not_counted:
  "random_randint highest_randint 1 (num_options (QuizSimulator_init 1 2 0)) 0 = Inr (2, 1) \<and>
   correct_answers highest_randint (QuizSimulator_init 1 2 0) 0 = Inr (0, 1) \<and>
   simulate_participant_score highest_randint (QuizSimulator_init 1 2 0) 0 = Inr (0, 1)"
  by (simp add: simulate_participant_score_def correct_answers_def QuizSimulator_init_def
      random_randint_def highest_randint_def)

text \<open>
  C2, as stated, fails: the constructors check nothing. An analyzer built with a knowledge
  shift of -1 (an invalid configuration) is accepted, its simulation runs to the end
  without an error, and it records the scores -1 and -1.
\<close>

theorem C2_counterexample:
  "\<not> valid_config (quiz_simulator (QuizAnalyzer_init 2 (- 1))) \<and>
   run_simulation lowest_randint (QuizAnalyzer_init 2 (- 1)) 0 =
     Inr ((QuizAnalyzer_init 2 (- 1))\<lparr>grade_distribution := \<lparr>scores = [- 1, - 1]\<rparr>\<rparr>, 40)"
  by code_simp

text \<open>
  C2, amended: the constructors store every parameter as given and reject nothing. The
  only error of a run is the \<^verbatim>\<open>ValueError\<close> of the draw, and it is raised exactly when
  the number of options is below 1 while the numbers of questions and of participants
  are positive; every other run returns. For no valid configuration is an error raised.
\<close>

theorem C2_only_the_draw_raises:
  "num_questions (QuizSimulator_init nq no ks) = nq \<and>
   num_options (QuizSimulator_init nq no ks) = no \<and>
   knowledge_shift (QuizSimulator_init nq no ks) = ks \<and>
   num_participants (QuizAnalyzer_init np ks) = np \<and>
   quiz_simulator (QuizAnalyzer_init np ks) = QuizSimulator_init 20 4 ks \<and>
   (run_simulation gen a g = Inl ValueError \<longleftrightarrow>
      num_options (quiz_simulator a) < 1 \<and> 0 < num_questions (quiz_simulator a) \<and>
      0 < num_participants a) \<and>
   (run_simulation gen a g \<noteq> Inl ValueError \<longrightarrow>
      (\<exists>a' g'. run_simulation gen a g = Inr (a', g'))) \<and>
   (valid_config (quiz_simulator a) \<longrightarrow> (\<exists>a' g'. run_simulation gen a g = Inr (a', g')))"
proof -
  have iff: "run_simulation gen a g = Inl ValueError \<longleftrightarrow>
      num_options (quiz_simulator a) < 1 \<and> 0 < num_questions (quiz_simulator a) \<and>
      0 < num_participants a"
    using run_simulation_error_iff [of gen a g] run_simulation_error_value [of gen a g]
    by blast
  have other: "run_simulation gen a g \<noteq> Inl ValueError \<longrightarrow>
      (\<exists>a' g'. run_simulation gen a g = Inr (a', g'))"
    using run_simulation_error_value [of gen a g]
    by (cases "run_simulation gen a g") auto
  have valid: "valid_config (quiz_simulator a) \<longrightarrow> (\<exists>a' g'. run_simulation gen a g = Inr (a', g'))"
    using run_simulation_returns [of a gen g] by (simp add: valid_config_def)
  have init: "num_questions (QuizSimulator_init nq no ks) = nq"
    "num_options (QuizSimulator_init nq no ks) = no"
    "knowledge_shift (QuizSimulator_init nq no ks) = ks"
    "num_participants (QuizAnalyzer_init np ks) = np"
    "quiz_simulator (QuizAnalyzer_init np ks) = QuizSimulator_init 20 4 ks"
    by (simp_all add: QuizSimulator_init_def QuizAnalyzer_init_def
        default_num_questions_def default_num_options_def)
  from init iff other valid show ?thesis by blast
qed

theorem C2_only_the_draw_raises_witness:
  "run_simulation lowest_randint
     \<lparr>num_participants = 5, qa_knowledge_shift = 0,
      quiz_simulator = QuizSimulator_init 1 0 0,
      grade_distribution = GradeDistribution_init\<rparr> 0 = Inl ValueError \<and>
   valid_config (quiz_simulator (QuizAnalyzer_init 2 0)) \<and>
   (\<exists>a' g'. run_simulation lowest_randint (QuizAnalyzer_init 2 0) 0 = Inr (a', g'))"
proof -
  let ?bad = "\<lparr>num_participants = 5, qa_knowledge_shift = 0,
      quiz_simulator = QuizSimulator_init 1 0 0,
      grade_distribution = GradeDistribution_init\<rparr>"
  have "num_options (quiz_simulator ?bad) < 1 \<and> 0 < num_questions (quiz_simulator ?bad) \<and>
      0 < num_participants ?bad"
    by (simp add: QuizSimulator_init_def)
  with C2_only_the_draw_raises [of _ _ _ _ lowest_randint ?bad 0]
  have bad: "run_simulation lowest_randint ?bad 0 = Inl ValueError" by blast
  have v: "valid_config (quiz_simulator (QuizAnalyzer_init 2 0))"
    by (simp add: valid_config_def QuizAnalyzer_init_def QuizSimulator_init_def
        default_num_questions_def default_num_options_def)
  with C2_only_the_draw_raises [of _ _ _ _ lowest_randint "QuizAnalyzer_init 2 0" 0]
  have "\<exists>a' g'. run_simulation lowest_randint (QuizAnalyzer_init 2 0) 0 = Inr (a', g')"
    by blast
  with bad v show ?thesis by blast
qed

text \<open>
  C8, as stated, fails: the scores accumulated before a run are part of what the
  distribution is computed from. With the same configuration (3 participants, a shift of
  1) and the same random-source state, a run on an analyzer fresh from its constructor
  gives \<open>{1: 3}\<close>, and a run on the same analyzer after that first run gives \<open>{1: 6}\<close>.
\<close>

theorem C8_counterexample:
  "num_participants ((QuizAnalyzer_init 3 1)\<lparr>grade_distribution := \<lparr>scores = [1, 1, 1]\<rparr>\<rparr>) =
     num_participants (QuizAnalyzer_init 3 1) \<and>
   quiz_simulator ((QuizAnalyzer_init 3 1)\<lparr>grade_distribution := \<lparr>scores = [1, 1, 1]\<rparr>\<rparr>) =
     quiz_simulator (QuizAnalyzer_init 3 1) \<and>
   run_simulation lowest_randint (QuizAnalyzer_init 3 1) 0 =
     Inr ((QuizAnalyzer_init 3 1)\<lparr>grade_distribution := \<lparr>scores = [1, 1, 1]\<rparr>\<rparr>, 60) \<and>
   run_distribution lowest_randint (QuizAnalyzer_init 3 1) 0 = Inr [(1, 3)] \<and>
   run_distribution lowest_randint
     ((QuizAnalyzer_init 3 1)\<lparr>grade_distribution := \<lparr>scores = [1, 1, 1]\<rparr>\<rparr>) 0 = Inr [(1, 6)]"
  by code_simp

text \<open>
  C8, amended: a run reads the number of participants, the simulator's configuration and
  the random source, and nothing else. Two analyzers that agree on the first two and
  start from the same random-source state either both raise the same error, or both
  return, leave the random source in the same state and append the same new scores to
  whatever each had accumulated; the distribution of each is the count of its earlier
  scores followed by these. Hence the two distributions are identical when the scores
  accumulated before the runs are (none, for two analyzers fresh from the constructor).
\<close>

theorem C8_run_determined_by_seed_and_scores:
  assumes "num_participants a1 = num_participants a2"
    and "quiz_simulator a1 = quiz_simulator a2"
  shows "((\<exists>e. run_simulation gen a1 g = Inl e \<and> run_simulation gen a2 g = Inl e) \<or>
          (\<exists>a1' a2' g' new.
             run_simulation gen a1 g = Inr (a1', g') \<and>
             run_simulation gen a2 g = Inr (a2', g') \<and>
             scores (grade_distribution a1') = scores (grade_distribution a1) @ new \<and>
             scores (grade_distribution a2') = scores (grade_distribution a2) @ new \<and>
             run_distribution gen a1 g = Inr (Counter (scores (grade_distribution a1) @ new)) \<and>
             run_distribution gen a2 g = Inr (Counter (scores (grade_distribution a2) @ new)))) \<and>
         (scores (grade_distribution a1) = scores (grade_distribution a2) \<longrightarrow>
            run_distribution gen a1 g = run_distribution gen a2 g)"
proof -
  let ?qs = "quiz_simulator a1" and ?n = "nat (num_participants a1)"
  have main: "(\<exists>e. run_simulation gen a1 g = Inl e \<and> run_simulation gen a2 g = Inl e) \<or>
          (\<exists>a1' a2' g' new.
             run_simulation gen a1 g = Inr (a1', g') \<and>
             run_simulation gen a2 g = Inr (a2', g') \<and>
             scores (grade_distribution a1') = scores (grade_distribution a1) @ new \<and>
             scores (grade_distribution a2') = scores (grade_distribution a2) @ new \<and>
             run_distribution gen a1 g = Inr (Counter (scores (grade_distribution a1) @ new)) \<and>
             run_distribution gen a2 g = Inr (Counter (scores (grade_distribution a2) @ new)))"
  proof (cases "run_loop gen ?qs ?n (grade_distribution a1) g")
    case (Inl e)
    from run_loop_frame_error [OF Inl, of "grade_distribution a2"] assms
    have "run_loop gen (quiz_simulator a2) (nat (num_participants a2)) (grade_distribution a2) g = Inl e"
      by simp
    with Inl have "run_simulation gen a1 g = Inl e \<and> run_simulation gen a2 g = Inl e"
      by (simp add: run_simulation_def)
    then show ?thesis by blast
  next
    case (Inr p)
    obtain gd1' g' where p: "p = (gd1', g')" by (cases p)
    from Inr p have r1: "run_loop gen ?qs ?n (grade_distribution a1) g = Inr (gd1', g')" by simp
    from run_loop_frame [OF r1] obtain new where
      new: "scores gd1' = scores (grade_distribution a1) @ new"
        "\<forall>gd2. run_loop gen ?qs ?n gd2 g = Inr (gd2\<lparr>scores := scores gd2 @ new\<rparr>, g')"
      by blast
    let ?gd2' = "(grade_distribution a2)\<lparr>scores := scores (grade_distribution a2) @ new\<rparr>"
    from new(2) assms have r2:
      "run_loop gen (quiz_simulator a2) (nat (num_participants a2)) (grade_distribution a2) g =
         Inr (?gd2', g')"
      by simp
    from r1 have s1: "run_simulation gen a1 g = Inr (a1\<lparr>grade_distribution := gd1'\<rparr>, g')"
      by (simp add: run_simulation_def)
    from r2 have s2: "run_simulation gen a2 g = Inr (a2\<lparr>grade_distribution := ?gd2'\<rparr>, g')"
      by (simp add: run_simulation_def)
    from s1 new(1) have d1:
      "run_distribution gen a1 g = Inr (Counter (scores (grade_distribution a1) @ new))"
      by (simp add: run_distribution_def calculate_distribution_def)
    from s2 have d2:
      "run_distribution gen a2 g = Inr (Counter (scores (grade_distribution a2) @ new))"
      by (simp add: run_distribution_def calculate_distribution_def)
    have "scores (grade_distribution (a1\<lparr>grade_distribution := gd1'\<rparr>)) =
        scores (grade_distribution a1) @ new"
      using new(1) by simp
    moreover have "scores (grade_distribution (a2\<lparr>grade_distribution := ?gd2'\<rparr>)) =
        scores (grade_distribution a2) @ new"
      by simp
    ultimately show ?thesis using s1 s2 d1 d2 by blast
  qed
  have same: "scores (grade_distribution a1) = scores (grade_distribution a2) \<longrightarrow>
            run_distribution gen a1 g = run_distribution gen a2 g"
  proof
    assume eq: "scores (grade_distribution a1) = scores (grade_distribution a2)"
    from main show "run_distribution gen a1 g = run_distribution gen a2 g"
    proof
      assume "\<exists>e. run_simulation gen a1 g = Inl e \<and> run_simulation gen a2 g = Inl e"
      then show ?thesis by (auto simp: run_distribution_def)
    next
      assume "\<exists>a1' a2' g' new.
             run_simulation gen a1 g = Inr (a1', g') \<and>
             run_simulation gen a2 g = Inr (a2', g') \<and>
             scores (grade_distribution a1') = scores (grade_distribution a1) @ new \<and>
             scores (grade_distribution a2') = scores (grade_distribution a2) @ new \<and>
             run_distribution gen a1 g = Inr (Counter (scores (grade_distribution a1) @ new)) \<and>
             run_distribution gen a2 g = Inr (Counter (scores (grade_distribution a2) @ new))"
      with eq show ?thesis by auto
    qed
  qed
  from main same show ?thesis by blast
qed

theorem C8_run_determined_by_seed_and_scores_witness:
  "num_participants (QuizAnalyzer_init 3 1) =
     num_participants ((QuizAnalyzer_init 3 1)\<lparr>qa_knowledge_shift := 7, grade_distribution := \<lparr>scores = [9]\<rparr>\<rparr>) \<and>
   quiz_simulator (QuizAnalyzer_init 3 1) =
     quiz_simulator ((QuizAnalyzer_init 3 1)\<lparr>qa_knowledge_shift := 7, grade_distribution := \<lparr>scores = [9]\<rparr>\<rparr>) \<and>
   run_distribution lowest_randint (QuizAnalyzer_init 3 1) 0 = Inr [(1, 3)] \<and>
   run_distribution lowest_randint
     ((QuizAnalyzer_init 3 1)\<lparr>qa_knowledge_shift := 7, grade_distribution := \<lparr>scores = [9]\<rparr>\<rparr>) 0 =
     Inr [(9, 1), (1, 3)] \<and>
   (\<exists>a1' a2' g' new.
      run_simulation lowest_randint (QuizAnalyzer_init 3 1) 0 = Inr (a1', g') \<and>
      run_simulation lowest_randint
        ((QuizAnalyzer_init 3 1)\<lparr>qa_knowledge_shift := 7, grade_distribution := \<lparr>scores = [9]\<rparr>\<rparr>) 0 =
        Inr (a2', g') \<and>
      scores (grade_distribution a1') = new \<and>
      scores (grade_distribution a2') = 9 # new)"
proof -
  let ?a1 = "QuizAnalyzer_init 3 1"
  let ?a2 = "(QuizAnalyzer_init 3 1)\<lparr>qa_knowledge_shift := 7, grade_distribution := \<lparr>scores = [9]\<rparr>\<rparr>"
  have h: "num_participants ?a1 = num_participants ?a2" "quiz_simulator ?a1 = quiz_simulator ?a2"
    by simp_all
  have f: "scores (grade_distribution ?a1) = []" "scores (grade_distribution ?a2) = [9]"
    by (simp_all add: QuizAnalyzer_init_def GradeDistribution_init_def)
  have e: "run_distribution lowest_randint ?a1 0 = Inr [(1, 3)]"
    "run_distribution lowest_randint ?a2 0 = Inr [(9, 1), (1, 3)]"
    by code_simp+
  have ok: "run_simulation lowest_randint ?a1 0 \<noteq> Inl err" for err
    using e(1) by (auto simp: run_distribution_def)
  from C8_run_determined_by_seed_and_scores [OF h, of lowest_randint 0] ok
  have "\<exists>a1' a2' g' new.
      run_simulation lowest_randint ?a1 0 = Inr (a1', g') \<and>
      run_simulation lowest_randint ?a2 0 = Inr (a2', g') \<and>
      scores (grade_distribution a1') = new \<and>
      scores (grade_distribution a2') = 9 # new"
    unfolding f by auto
  with h e show ?thesis by blast
qed

text \<open>
  C9, as stated, fails for a negative knowledge shift: the analyzer built from 1
  participant and a shift of -1 simulates 20 questions with 4 options, and on draws that
  are all 1 the score is -1, outside \<open>[0, 20]\<close>.
\<close>

theorem C9_counterexample:
  "quiz_simulator (QuizAnalyzer_init 1 (- 1)) = QuizSimulator_init 20 4 (- 1) \<and>
   simulate_participant_score lowest_randint (quiz_simulator (QuizAnalyzer_init 1 (- 1))) 0 =
     Inr (- 1, 20) \<and>
   run_distribution lowest_randint (QuizAnalyzer_init 1 (- 1)) 0 = Inr [(- 1, 1)]"
  by code_simp

text \<open>
  C9, amended: an analyzer built by its constructor always simulates 20 questions with 4
  options, whatever the number of participants and the knowledge shift; its run
  succeeds, and every score it records lies in \<open>[min 20 knowledge_shift, 20]\<close>, hence in
  \<open>[0, 20]\<close> when the knowledge shift is not negative.
\<close>

theorem C9_questions_and_options_fixed:
  "quiz_simulator (QuizAnalyzer_init np ks) =
     \<lparr>num_questions = 20, num_options = 4, knowledge_shift = ks\<rparr> \<and>
   (\<exists>a' g'. run_simulation gen (QuizAnalyzer_init np ks) g = Inr (a', g') \<and>
      quiz_simulator a' = \<lparr>num_questions = 20, num_options = 4, knowledge_shift = ks\<rparr> \<and>
      (\<forall>s \<in> set (scores (grade_distribution a')).
         min 20 ks \<le> s \<and> s \<le> 20 \<and> (0 \<le> ks \<longrightarrow> 0 \<le> s)))"
proof -
  let ?a = "QuizAnalyzer_init np ks"
  have qs: "quiz_simulator ?a = \<lparr>num_questions = 20, num_options = 4, knowledge_shift = ks\<rparr>"
    by (simp add: QuizAnalyzer_init_def QuizSimulator_init_def
        default_num_questions_def default_num_options_def)
  have fresh: "scores (grade_distribution ?a) = []"
    by (simp add: QuizAnalyzer_init_def GradeDistribution_init_def)
  have "\<not> (num_options (quiz_simulator ?a) < 1 \<and> 0 < num_questions (quiz_simulator ?a))"
    by (simp add: qs)
  from run_simulation_returns [OF this, of gen g] obtain a' g' where
    r: "run_simulation gen ?a g = Inr (a', g')" by blast
  from run_simulation_scores(1) [OF r] fresh have
    each: "\<forall>s \<in> set (scores (grade_distribution a')).
       \<exists>g1 g2. simulate_participant_score gen (quiz_simulator ?a) g1 = Inr (s, g2)"
    by auto
  have bounds: "min 20 ks \<le> s \<and> s \<le> 20 \<and> (0 \<le> ks \<longrightarrow> 0 \<le> s)"
    if "s \<in> set (scores (grade_distribution a'))" for s
  proof -
    from each that obtain g1 g2 where
      "simulate_participant_score gen (quiz_simulator ?a) g1 = Inr (s, g2)" by blast
    from simulate_score_shape [OF this] obtain c where
      "0 \<le> c" "s = min (num_questions (quiz_simulator ?a)) (c + knowledge_shift (quiz_simulator ?a))"
      by blast
    then show ?thesis by (simp add: qs)
  qed
  from run_simulation_scores(3) [OF r] qs
  have "quiz_simulator a' = \<lparr>num_questions = 20, num_options = 4, knowledge_shift = ks\<rparr>"
    by simp
  with qs r bounds show ?thesis by blast
qed

theorem C9_questions_and_options_fixed_witness:
  "quiz_simulator (QuizAnalyzer_init 2 3) =
     \<lparr>num_questions = 20, num_options = 4, knowledge_shift = 3\<rparr> \<and>
   run_simulation highest_randint (QuizAnalyzer_init 2 3) 0 =
     Inr ((QuizAnalyzer_init 2 3)\<lparr>grade_distribution := \<lparr>scores = [20, 20]\<rparr>\<rparr>, 40) \<and>
   (\<exists>a' g'. run_simulation highest_randint (QuizAnalyzer_init 2 3) 0 = Inr (a', g') \<and>
      (\<forall>s \<in> set (scores (grade_distribution a')). 3 \<le> s \<and> s \<le> 20 \<and> 0 \<le> s))"
proof -
  have e: "run_simulation highest_randint (QuizAnalyzer_init 2 3) 0 =
     Inr ((QuizAnalyzer_init 2 3)\<lparr>grade_distribution := \<lparr>scores = [20, 20]\<rparr>\<rparr>, 40)"
    by code_simp
  from C9_questions_and_options_fixed [of 2 3 highest_randint 0] e show ?thesis
    by simp
qed

text \<open>
  C10: the scores are never reset. \<open>n\<close> calls of \<^verbatim>\<open>run_simulation\<close> on the same analyzer
  (at least one option, a non-negative number of participants) all succeed, keep the
  scores that were there and append \<open>n * num_participants\<close> new ones; the counts of the
  distribution read afterwards sum to the number of scores there were plus
  \<open>n * num_participants\<close>, which is \<open>n * num_participants\<close> for an analyzer that started
  with no score. \<^verbatim>\<open>calculate_distribution\<close> only reads the scores: it is a function of
  the score list that returns a new dictionary, and no state comes back from it.
\<close>

theorem C10_scores_accumulate:
  assumes "1 \<le> num_options (quiz_simulator a)"
    and "0 \<le> num_participants a"
  shows "\<exists>a' g' new. run_simulation_times gen n a g = Inr (a', g') \<and>
           scores (grade_distribution a') = scores (grade_distribution a) @ new \<and>
           int (length new) = int n * num_participants a \<and>
           total_count (calculate_distribution (grade_distribution a')) =
             int (length (scores (grade_distribution a))) + int n * num_participants a \<and>
           (scores (grade_distribution a) = [] \<longrightarrow>
              total_count (calculate_distribution (grade_distribution a')) =
                int n * num_participants a)"
proof -
  from run_simulation_times_scores [OF assms(1), of gen n g] obtain a' g' new where
    r: "run_simulation_times gen n a g = Inr (a', g')"
      "scores (grade_distribution a') = scores (grade_distribution a) @ new"
      "length new = n * nat (num_participants a)"
    by blast
  from r(3) assms(2) have len: "int (length new) = int n * num_participants a" by simp
  with r(2) have tot: "total_count (calculate_distribution (grade_distribution a')) =
             int (length (scores (grade_distribution a))) + int n * num_participants a"
    by (simp add: calculate_distribution_def Counter_total)
  then have "scores (grade_distribution a) = [] \<longrightarrow>
              total_count (calculate_distribution (grade_distribution a')) =
                int n * num_participants a"
    by simp
  with r(1,2) len tot show ?thesis by blast
qed

theorem C10_scores_accumulate_witness:
  "1 \<le> num_options (quiz_simulator (QuizAnalyzer_init 2 1)) \<and>
   0 \<le> num_participants (QuizAnalyzer_init 2 1) \<and>
   run_simulation_times lowest_randint 3 (QuizAnalyzer_init 2 1) 0 =
     Inr ((QuizAnalyzer_init 2 1)\<lparr>grade_distribution := \<lparr>scores = [1, 1, 1, 1, 1, 1]\<rparr>\<rparr>, 120) \<and>
   calculate_distribution \<lparr>scores = [1, 1, 1, 1, 1, 1]\<rparr> = [(1, 6)] \<and>
   (\<exists>a' g' new. run_simulation_times lowest_randint 3 (QuizAnalyzer_init 2 1) 0 = Inr (a', g') \<and>
      scores (grade_distribution a') = new \<and> int (length new) = 6 \<and>
      total_count (calculate_distribution (grade_distribution a')) = 6)"
proof -
  let ?a = "QuizAnalyzer_init 2 1"
  have h1: "1 \<le> num_options (quiz_simulator ?a)"
    by (simp add: QuizAnalyzer_init_def QuizSimulator_init_def default_num_options_def)
  have h2: "0 \<le> num_participants ?a" by (simp add: QuizAnalyzer_init_def)
  have f: "scores (grade_distribution ?a) = []" "num_participants ?a = 2"
    by (simp_all add: QuizAnalyzer_init_def GradeDistribution_init_def)
  have e1: "run_simulation_times lowest_randint 3 ?a 0 =
     Inr (?a\<lparr>grade_distribution := \<lparr>scores = [1, 1, 1, 1, 1, 1]\<rparr>\<rparr>, 120)"
    by code_simp
  have e2: "calculate_distribution \<lparr>scores = [1, 1, 1, 1, 1, 1]\<rparr> = [(1, 6)]"
    by code_simp
  from C10_scores_accumulate [OF h1 h2, of lowest_randint 3 0]
  have "\<exists>a' g' new. run_simulation_times lowest_randint 3 ?a 0 = Inr (a', g') \<and>
      scores (grade_distribution a') = new \<and> int (length new) = 6 \<and>
      total_count (calculate_distribution (grade_distribution a')) = 6"
    unfolding f by simp
  with h1 h2 e1 e2 show ?thesis by blast
qed

end
